theory Spec2Isabelle
  imports Complex_Main "HOL-Library.AList" "HOL-Library.Sublist"
begin

section \<open>Values and rows\<close>

text \<open>
  The dashboard works on the rows that the CSV parser delivers with a header line and
  dynamic typing: one object per line, keyed by column name. Numbers are modelled as
  exact rationals (\<^typ>\<open>rat\<close>); binary floating point is not modelled.

  A textual column (\<open>User\<close>, \<open>Week Range\<close>, \<open>Date\<close>) holds \<open>undefined\<close> when the key
  is absent, \<open>null\<close> when the cell is blank, or a string. A task column holds a number
  or \<open>null\<close>; a task key that the row does not have reads as \<open>undefined\<close>.
\<close>

datatype jsfield = Absent | Blank | Text string

record row =
  User :: jsfield
  Week_Range :: jsfield
  Date :: jsfield
  cells :: "(string \<times> rat option) list"

text \<open>The JavaScript errors that the modelled functions can throw (\<open>PlainError\<close> is a
  plain \<open>Error\<close>), and the dashboard's own error classes of \<open>utils/errors.js\<close>.\<close>

datatype error =
  TypeError | PlainError | ValidationError | DataFetchError | ChartError | FilterError

text \<open>\<open>!v\<close> is false exactly for a non-empty string.\<close>

fun truthy :: "jsfield \<Rightarrow> bool" where
  "truthy (Text s) = (s \<noteq> [])"
| "truthy _ = False"

text \<open>Strings are lists of bytes. \<open>toLowerCase\<close> maps the ASCII capital letters to
  small letters and leaves every other character as it is.\<close>

definition toLowerCase_char :: "char \<Rightarrow> char" where
  "toLowerCase_char c =
     (case map_of (zip ''ABCDEFGHIJKLMNOPQRSTUVWXYZ'' ''abcdefghijklmnopqrstuvwxyz'') c of
        Some l \<Rightarrow> l
      | None \<Rightarrow> c)"

definition toLowerCase :: "string \<Rightarrow> string" where
  "toLowerCase s = map toLowerCase_char s"

text \<open>\<open>s.split('@')[0]\<close>: the part of \<open>s\<close> before the first \<open>@\<close>, all of \<open>s\<close> when there is
  none.\<close>

definition split_at_0 :: "string \<Rightarrow> string" where
  "split_at_0 s = takeWhile (\<lambda>c. c \<noteq> CHR ''@'') s"

text \<open>\<open>s.includes(q)\<close>\<close>

definition str_includes :: "string \<Rightarrow> string \<Rightarrow> bool" where
  "str_includes s q = sublist q s"

text \<open>\<open>[...new Set(xs)]\<close>: the distinct values in the order of their first occurrence.\<close>

definition uniq :: "'a list \<Rightarrow> 'a list" where
  "uniq xs = foldl (\<lambda>acc x. if x \<in> set acc then acc else acc @ [x]) [] xs"

text \<open>The keys of a row object other than \<open>Date\<close>, \<open>User\<close> and \<open>Week Range\<close>; a key is
  listed once, and \<open>map_of\<close> reads its value.\<close>

definition row_keys :: "row \<Rightarrow> string list" where
  "row_keys r =
     filter (\<lambda>key. key \<notin> set [''Date'', ''User'', ''Week Range'']) (uniq (map fst (cells r)))"

text \<open>\<open>row[task] || 0\<close>: the number in the cell, and 0 for an absent key, a blank cell and
  the number 0.\<close>

definition cell_or_0 :: "row \<Rightarrow> string \<Rightarrow> rat" where
  "cell_or_0 r task = (case map_of (cells r) task of Some (Some h) \<Rightarrow> h | _ \<Rightarrow> 0)"

section \<open>Configuration\<close>

text \<open>The constants of \<open>metrics-config.js\<close>, as they stand at the end of
  \<open>src/modules/hr/config/chart-renderer.js\<close>.\<close>

definition EMPLOYEE_RATES_default :: rat where
  "EMPLOYEE_RATES_default = 25"

definition EMPLOYEE_RATES :: "(string \<times> rat) list" where
  "EMPLOYEE_RATES =
     [(''victoria'', 33 / 2),
      (''kyle'', 20),
      (''brooke'', 25),
      (''melanie'', 25),
      (''austin'', 35),
      (''default'', EMPLOYEE_RATES_default)]"

definition TASK_CATEGORIES :: "(string \<times> string list) list" where
  "TASK_CATEGORIES =
     [(''Business Development'',
         [''BD - Research'', ''BD - Emailing'', ''BD - Calls'', ''BD - Internal Call'']),
      (''Congress'',
         [''Congress - Research'', ''Congress - Emailing'', ''Congress - Calls'',
          ''Congress - Internal Call'']),
      (''Social Media'',
         [''Social Management'', ''Social Content - Research'', ''Social Content - Scripting'',
          ''Social Content - Recording'', ''Social Content - Video Editing'',
          ''Social Content - Graphic Design'', ''Social - Internal Call'']),
      (''Influencer'', [''Influencer Outreach'', ''Influencer - Internal Call'']),
      (''Newsletter'',
         [''Newsletter - Writing/Editing'', ''Newsletter - Operations'',
          ''Newsletter - Internal Call'']),
      (''Miscellaneous'', [''Misc. Content'', ''Misc. Research'']),
      (''Internal Operations'',
         [''Internal Meetings'', ''Admin'', ''Operations'', ''Customer Support'']),
      (''Advertising'', [''Ads''])]"

definition CATEGORY_COLORS :: "(string \<times> string) list" where
  "CATEGORY_COLORS =
     [(''Business Development'', ''#4CAF50''),
      (''Congress'', ''#2196F3''),
      (''Social Media'', ''#FFC107''),
      (''Influencer'', ''#9C27B0''),
      (''Newsletter'', ''#FF5722''),
      (''Miscellaneous'', ''#607D8B''),
      (''Internal Operations'', ''#795548''),
      (''Advertising'', ''#E91E63'')]"

section \<open>Hourly rates (\<open>src/modules/hr/utils/errors.js\<close>)\<close>

text \<open>
  \<open>getHourlyRate(employeeName)\<close>. The rate table is read as a dictionary of its own
  entries; \<open>EMPLOYEE_RATES[n] || EMPLOYEE_RATES.default\<close> also falls back for a rate of 0.
\<close>

definition getHourlyRate :: "jsfield \<Rightarrow> rat" where
  "getHourlyRate employeeName =
     (if \<not> truthy employeeName then EMPLOYEE_RATES_default
      else
        (case employeeName of
           Text s \<Rightarrow>
             let normalizedName = split_at_0 (toLowerCase s) in
             (case map_of EMPLOYEE_RATES normalizedName of
                Some r \<Rightarrow> if r \<noteq> 0 then r else EMPLOYEE_RATES_default
              | None \<Rightarrow> EMPLOYEE_RATES_default)
         | _ \<Rightarrow> EMPLOYEE_RATES_default))"

section \<open>Aggregation (\<open>src/modules/hr/config/data-processor.js\<close>)\<close>

text \<open>
  A JavaScript object is an association list in insertion order: \<open>AList.update\<close> is the
  assignment \<open>obj[k] = v\<close> (a new key goes to the end, an existing key keeps its place),
  \<open>map_of\<close> the read \<open>obj[k]\<close>, \<open>AList.map_entry\<close> an in-place change of the value
  stored under a key.
\<close>

record share =
  empHours :: rat
  empCost :: rat

record bucket =
  totalHours :: rat
  totalCost :: rat
  byEmployee :: "(string \<times> share) list"

type_synonym detailed = "(string \<times> bucket) list"

definition fresh_bucket :: bucket where
  "fresh_bucket = \<lparr>totalHours = 0, totalCost = 0, byEmployee = []\<rparr>"

text \<open>The \<open>byEmployee\<close> bookkeeping of one cell: create the employee's entry when it is
  missing, then add the hours and the cost to it.\<close>

definition track_employee ::
  "string \<Rightarrow> rat \<Rightarrow> rat \<Rightarrow> (string \<times> share) list \<Rightarrow> (string \<times> share) list" where
  "track_employee employeeName h c be =
     (let be' = (case map_of be employeeName of
                   None \<Rightarrow> AList.update employeeName \<lparr>empHours = 0, empCost = 0\<rparr> be
                 | Some _ \<Rightarrow> be)
      in AList.map_entry employeeName
           (\<lambda>s. \<lparr>empHours = empHours s + h, empCost = empCost s + c\<rparr>) be')"

text \<open>The body of the inner \<open>taskCategories.forEach\<close>. Every task is a key of
  \<open>detailedTaskData\<close>, since the initialisation loop runs over the same list.\<close>

definition add_task :: "row \<Rightarrow> string \<Rightarrow> rat \<Rightarrow> detailed \<Rightarrow> string \<Rightarrow> detailed" where
  "add_task r employeeName hourlyRate d task =
     (let hours = cell_or_0 r task in
      if hours > 0 then
        AList.map_entry task
          (\<lambda>b. \<lparr>totalHours = totalHours b + hours,
                totalCost = totalCost b + hours * hourlyRate,
                byEmployee =
                  track_employee employeeName hours (hours * hourlyRate) (byEmployee b)\<rparr>) d
      else d)"

text \<open>The body of \<open>employeeData.forEach\<close>. \<open>row.User.toLowerCase()\<close> throws a
  \<open>TypeError\<close> unless \<open>row.User\<close> is a string.\<close>

definition add_row :: "string list \<Rightarrow> detailed \<Rightarrow> row \<Rightarrow> error + detailed" where
  "add_row taskCategories d r =
     (case User r of
        Text u \<Rightarrow>
          let employeeName = split_at_0 (toLowerCase u);
              hourlyRate = getHourlyRate (Text employeeName)
          in Inr (foldl (add_task r employeeName hourlyRate) d taskCategories)
      | _ \<Rightarrow> Inl TypeError)"

fun add_rows :: "string list \<Rightarrow> detailed \<Rightarrow> row list \<Rightarrow> error + detailed" where
  "add_rows taskCategories d [] = Inr d"
| "add_rows taskCategories d (r # rs) =
     (case add_row taskCategories d r of
        Inl e \<Rightarrow> Inl e
      | Inr d' \<Rightarrow> add_rows taskCategories d' rs)"

definition calculateDetailedTaskData :: "row list \<Rightarrow> string list \<Rightarrow> error + detailed" where
  "calculateDetailedTaskData employeeData taskCategories =
     add_rows taskCategories
       (foldl (\<lambda>d task. AList.update task fresh_bucket d) [] taskCategories) employeeData"




subsection \<open>Notions used in the statements\<close>




text \<open>The en dash of the week labels, in UTF-8, and the row of the specification's example.\<close>

definition en_dash :: string where
  "en_dash = [CHR 0xE2, CHR 0x80, CHR 0x93]"

definition kyle_row :: row where
  "kyle_row =
     \<lparr>User = Text ''kyle@x.com'',
      Week_Range = Text (''Mar 10 '' @ en_dash @ '' Mar 15 (2025)''),
      Date = Absent,
      cells = [(''BD - Research'', Some 2)]\<rparr>"

section \<open>Week ranges (\<open>src/modules/hr/utils/errors.js\<close>)\<close>

text \<open>
  A \<open>Date\<close> object is its time value: a number of milliseconds since the epoch, or
  \<open>NaN\<close> for an invalid date. What the host supplies is a parameter: the current
  calendar year, the conversion of a local time value to UTC, and the result of
  \<open>weeks.sort((a, b) => new Date(a) - new Date(b))\<close>, a permutation of \<open>weeks\<close> whose order
  depends on how the host's \<open>Date\<close> parses a label.
\<close>

datatype jsdate = Invalid_Date | Date_ms int

record host =
  currentYear :: int
  utc_of_local :: "int \<Rightarrow> int"
  sort_by_Date :: "jsfield list \<Rightarrow> jsfield list"

text \<open>The day number of the first day of a year, and leap years (ECMAScript
  \<open>DayFromYear\<close>, \<open>InLeapYear\<close>).\<close>

definition DayFromYear :: "int \<Rightarrow> int" where
  "DayFromYear y =
     365 * (y - 1970) + (y - 1969) div 4 - (y - 1901) div 100 + (y - 1601) div 400"

definition InLeapYear :: "int \<Rightarrow> bool" where
  "InLeapYear y \<longleftrightarrow> y mod 4 = 0 \<and> (y mod 100 \<noteq> 0 \<or> y mod 400 = 0)"

definition days_before_month :: "int \<Rightarrow> nat \<Rightarrow> int" where
  "days_before_month y m =
     [0, 31, 59, 90, 120, 151, 181, 212, 243, 273, 304, 334] ! m +
     (if InLeapYear y \<and> 2 \<le> m then 1 else 0)"

text \<open>\<open>MakeDay(year, month, date)\<close> for a month index from 0 to 11.\<close>

definition MakeDay :: "int \<Rightarrow> nat \<Rightarrow> int \<Rightarrow> int" where
  "MakeDay y m dt = DayFromYear y + days_before_month y m + dt - 1"

definition TimeClip :: "int \<Rightarrow> jsdate" where
  "TimeClip t = (if \<bar>t\<bar> > 8640000000000000 then Invalid_Date else Date_ms t)"

text \<open>\<open>new Date(year, month, day)\<close>: local midnight of that day; a year from 0 to 99 is
  taken in the 20th century; an \<open>undefined\<close> month gives an invalid date.\<close>

definition new_Date :: "host \<Rightarrow> int \<Rightarrow> nat option \<Rightarrow> int \<Rightarrow> jsdate" where
  "new_Date h year month day =
     (case month of
        None \<Rightarrow> Invalid_Date
      | Some m \<Rightarrow>
          let yr = (if 0 \<le> year \<and> year \<le> 99 then 1900 + year else year)
          in TimeClip (utc_of_local h (MakeDay yr m day * 86400000)))"

text \<open>The character classes \<open>[A-Za-z]\<close>, \<open>\s\<close> (its ASCII members) and \<open>\d\<close>.\<close>

definition is_alpha :: "char \<Rightarrow> bool" where
  "is_alpha c \<longleftrightarrow>
     c \<in> set ''ABCDEFGHIJKLMNOPQRSTUVWXYZabcdefghijklmnopqrstuvwxyz''"

definition is_space :: "char \<Rightarrow> bool" where
  "is_space c \<longleftrightarrow> c \<in> set [CHR '' '', CHR 0x09, CHR 0x0A, CHR 0x0B, CHR 0x0C, CHR 0x0D]"

definition is_digit :: "char \<Rightarrow> bool" where
  "is_digit c \<longleftrightarrow> c \<in> set ''0123456789''"

text \<open>\<open>parseInt\<close> of a string of decimal digits.\<close>

definition digit_val :: "char \<Rightarrow> int" where
  "digit_val c = (case map_of (zip ''0123456789'' [0, 1, 2, 3, 4, 5, 6, 7, 8, 9]) c of
                    Some n \<Rightarrow> n | None \<Rightarrow> 0)"

definition parseInt_digits :: "string \<Rightarrow> int" where
  "parseInt_digits ds = foldl (\<lambda>n c. 10 * n + digit_val c) 0 ds"

text \<open>
  A match of \<open>/([A-Za-z]+)\s+(\d+)/\<close> that starts at the head of the string. Each of
  the three greedy runs is followed by a character outside its class, so backtracking
  finds no other match at this position.
\<close>

definition match_month_day_here :: "string \<Rightarrow> (string \<times> string) option" where
  "match_month_day_here s =
     (let letters = takeWhile is_alpha s;
          rest = dropWhile is_alpha s;
          spaces = takeWhile is_space rest;
          digits = takeWhile is_digit (dropWhile is_space rest)
      in if letters \<noteq> [] \<and> spaces \<noteq> [] \<and> digits \<noteq> [] then Some (letters, digits)
         else None)"

text \<open>\<open>weekRange.match(/([A-Za-z]+)\s+(\d+)/)\<close>: the leftmost match, with its two groups.\<close>

fun match_month_day :: "string \<Rightarrow> (string \<times> string) option" where
  "match_month_day [] = None"
| "match_month_day (c # cs) =
     (case match_month_day_here (c # cs) of
        Some m \<Rightarrow> Some m
      | None \<Rightarrow> match_month_day cs)"

text \<open>\<open>weekRange.match(/\((\d{4})\)/)\<close>: the leftmost parenthesised group of four digits.\<close>

fun match_year :: "string \<Rightarrow> string option" where
  "match_year [] = None"
| "match_year (c # cs) =
     (if c = CHR ''('' \<and> 5 \<le> length cs \<and> list_all is_digit (take 4 cs) \<and> cs ! 4 = CHR '')''
      then Some (take 4 cs)
      else match_year cs)"

definition monthMap :: "(string \<times> nat) list" where
  "monthMap =
     [(''Jan'', 0), (''Feb'', 1), (''Mar'', 2), (''Apr'', 3), (''May'', 4), (''Jun'', 5),
      (''Jul'', 6), (''Aug'', 7), (''Sep'', 8), (''Oct'', 9), (''Nov'', 10), (''Dec'', 11)]"

text \<open>
  \<open>parseStartDateFromWeekRange\<close>. For a value that is not a string, \<open>weekRange.match\<close>
  throws; the \<open>catch\<close> block returns the epoch.
\<close>

definition parseStartDateFromWeekRange :: "host \<Rightarrow> jsfield \<Rightarrow> jsdate" where
  "parseStartDateFromWeekRange h weekRange =
     (case weekRange of
        Text s \<Rightarrow>
          (case match_month_day s of
             Some (month, d) \<Rightarrow>
               let day = parseInt_digits d;
                   year = (case match_year s of
                             Some y \<Rightarrow> parseInt_digits y
                           | None \<Rightarrow> currentYear h)
               in new_Date h year (map_of monthMap month) day
           | None \<Rightarrow> Date_ms 0)
      | _ \<Rightarrow> Date_ms 0)"





text \<open>\<open>getTaskCategories\<close>: the keys of the first row other than \<open>Date\<close>, \<open>User\<close> and
  \<open>Week Range\<close>.\<close>

definition getTaskCategories :: "row list \<Rightarrow> string list" where
  "getTaskCategories data = (case data of [] \<Rightarrow> [] | r # _ \<Rightarrow> row_keys r)"

section \<open>The filter pipeline (\<open>filterData\<close> in
  \<open>src/modules/hr/components/loading-state.js\<close>)\<close>



text \<open>\<open>rows.filter(row => row.User.toLowerCase().includes(needle))\<close>: the call
  \<open>row.User.toLowerCase()\<close> throws for a \<open>User\<close> that is not a string.\<close>

fun filter_user_includes :: "string \<Rightarrow> row list \<Rightarrow> error + row list" where
  "filter_user_includes needle [] = Inr []"
| "filter_user_includes needle (r # rs) =
     (case User r of
        Text u \<Rightarrow>
          (case filter_user_includes needle rs of
             Inl err \<Rightarrow> Inl err
           | Inr rs' \<Rightarrow> Inr (if str_includes (toLowerCase u) needle then r # rs' else rs'))
      | _ \<Rightarrow> Inl TypeError)"


section \<open>Pie data (\<open>src/modules/hr/config/data-processor.js\<close>)\<close>

text \<open>
  \<open>x.toFixed(1)\<close> of a finite number, as the number it denotes: rounding to one decimal,
  half away from zero. A division by zero gives \<open>Infinity\<close>, \<open>-Infinity\<close> or \<open>NaN\<close>, which
  \<open>toFixed\<close> prints as such.
\<close>

datatype fixed1 = Fixed1 rat | Fixed1_Infinity | Fixed1_Neg_Infinity | Fixed1_NaN

definition toFixed1 :: "rat \<Rightarrow> rat" where
  "toFixed1 x = sgn x * of_int \<lfloor>\<bar>x\<bar> * 10 + 1 / 2\<rfloor> / 10"


text \<open>\<open>(x / y).toFixed(1)\<close>\<close>

definition ratio_toFixed1 :: "rat \<Rightarrow> rat \<Rightarrow> fixed1" where
  "ratio_toFixed1 x y =
     (if y = 0 then
        (if x > 0 then Fixed1_Infinity else if x < 0 then Fixed1_Neg_Infinity else Fixed1_NaN)
      else Fixed1 (toFixed1 (x / y)))"

text \<open>\<open>((hours / totalHours) * 100).toFixed(1)\<close>; \<open>sumHours\<close> stands for \<open>totalHours\<close>.\<close>

definition percent_of :: "rat \<Rightarrow> rat \<Rightarrow> fixed1" where
  "percent_of hours sumHours =
     (if sumHours = 0 then
        (if hours > 0 then Fixed1_Infinity
         else if hours < 0 then Fixed1_Neg_Infinity else Fixed1_NaN)
      else Fixed1 (toFixed1 (hours / sumHours * 100)))"


section \<open>Colours (\<open>src/modules/hr/config/chart-renderer.js\<close>)\<close>

definition is_hex :: "char \<Rightarrow> bool" where
  "is_hex c \<longleftrightarrow> c \<in> set ''0123456789abcdefABCDEF''"

definition hex_val :: "char \<Rightarrow> int" where
  "hex_val c =
     (case map_of (zip ''0123456789abcdefABCDEF''
                       [0, 1, 2, 3, 4, 5, 6, 7, 8, 9, 10, 11, 12, 13, 14, 15,
                        10, 11, 12, 13, 14, 15]) c of
        Some n \<Rightarrow> n
      | None \<Rightarrow> 0)"

text \<open>\<open>parseInt(s, 16)\<close>: leading white space, a sign and a prefix \<open>0x\<close> are skipped, then
  the longest run of hexadecimal digits is read; without a digit the result is \<open>NaN\<close>
  (\<open>None\<close>).\<close>

definition parseInt16 :: "string \<Rightarrow> int option" where
  "parseInt16 s =
     (let s1 = dropWhile is_space s;
          sign = (case s1 of c # _ \<Rightarrow> if c = CHR ''-'' then - 1 else 1 | [] \<Rightarrow> 1);
          s2 = (case s1 of c # r \<Rightarrow> if c = CHR ''-'' \<or> c = CHR ''+'' then r else s1 | [] \<Rightarrow> s1);
          s3 = (if take 2 s2 = ''0x'' \<or> take 2 s2 = ''0X'' then drop 2 s2 else s2);
          ds = takeWhile is_hex s3
      in if ds = [] then None
         else Some (sign * foldl (\<lambda>n c. 16 * n + hex_val c) 0 ds))"

text \<open>\<open>Math.round\<close>: the nearest integer, a half rounded up.\<close>

definition Math_round :: "rat \<Rightarrow> int" where
  "Math_round x = \<lfloor>x + 1 / 2\<rfloor>"

text \<open>One channel: \<open>Math.min(255, Math.max(0, Math.round(r * (100 + percent) / 100)))\<close>;
  \<open>NaN\<close> stays \<open>NaN\<close>.\<close>

definition adjust_channel :: "int option \<Rightarrow> int \<Rightarrow> int option" where
  "adjust_channel r percent =
     map_option (\<lambda>r. min 255 (max 0 (Math_round (of_int (r * (100 + percent)) / 100)))) r"

definition hex_digit :: "int \<Rightarrow> char" where
  "hex_digit n = ''0123456789abcdef'' ! nat n"

text \<open>\<open>r.toString(16).padStart(2, '0')\<close> for a channel from 0 to 255, and for \<open>NaN\<close>.\<close>

definition hex2 :: "int option \<Rightarrow> string" where
  "hex2 r = (case r of
               None \<Rightarrow> ''NaN''
             | Some n \<Rightarrow> [hex_digit (n div 16), hex_digit (n mod 16)])"

definition adjustColor :: "string \<Rightarrow> int \<Rightarrow> string" where
  "adjustColor hex percent =
     (let hex = (case hex of c # cs \<Rightarrow> if c = CHR ''#'' then cs else hex | [] \<Rightarrow> hex);
          r = parseInt16 (take 2 hex);
          g = parseInt16 (take 2 (drop 2 hex));
          b = parseInt16 (take 2 (drop 4 hex));
          r = adjust_channel r percent;
          g = adjust_channel g percent;
          b = adjust_channel b percent
      in ''#'' @ hex2 r @ hex2 g @ hex2 b)"

record color_caches =
  TASK_COLOR_CACHE :: "(string \<times> string) list"
  TASK_BORDER_COLOR_CACHE :: "(string \<times> string) list"
  CATEGORY_COLOR_CACHE :: "(string \<times> string) list"
  CATEGORY_BORDER_COLOR_CACHE :: "(string \<times> string) list"

text \<open>The first loop of \<open>initializeColorCaches\<close>; an empty colour string is falsy and
  makes the function throw.\<close>

fun set_category_colors :: "(string \<times> string) list \<Rightarrow> color_caches \<Rightarrow> error + color_caches" where
  "set_category_colors [] caches = Inr caches"
| "set_category_colors ((category, baseColor) # rest) caches =
     (if baseColor = [] then Inl PlainError
      else set_category_colors rest
             (caches\<lparr>CATEGORY_COLOR_CACHE :=
                       AList.update category (baseColor @ ''CC'') (CATEGORY_COLOR_CACHE caches),
                     CATEGORY_BORDER_COLOR_CACHE :=
                       AList.update category baseColor (CATEGORY_BORDER_COLOR_CACHE caches)\<rparr>))"

text \<open>The percentage of the task at \<open>index\<close> among \<open>n\<close> tasks.\<close>

definition percentAdjustment :: "nat \<Rightarrow> nat \<Rightarrow> int" where
  "percentAdjustment n index =
     (if n = 1 then 0
      else let midPoint = n div 2; distanceFromMid = int index - int midPoint
           in distanceFromMid * 15)"

text \<open>The body of \<open>tasks.forEach((taskName, index) => ...)\<close>\<close>

definition set_task_color :: "string \<Rightarrow> nat \<Rightarrow> color_caches \<Rightarrow> nat \<times> string \<Rightarrow> color_caches" where
  "set_task_color baseColor n caches it =
     (case it of (index, taskName) \<Rightarrow>
        let adjustedColor = adjustColor baseColor (percentAdjustment n index)
        in caches\<lparr>TASK_COLOR_CACHE :=
                     AList.update taskName (adjustedColor @ ''CC'') (TASK_COLOR_CACHE caches),
                   TASK_BORDER_COLOR_CACHE :=
                     AList.update taskName adjustedColor (TASK_BORDER_COLOR_CACHE caches)\<rparr>)"

text \<open>The body of the loop over \<open>TASK_CATEGORIES\<close>: a category without a colour is
  skipped.\<close>

definition set_tasks_of_category ::
  "(string \<times> string) list \<Rightarrow> color_caches \<Rightarrow> string \<times> string list \<Rightarrow> color_caches" where
  "set_tasks_of_category colors caches entry =
     (case entry of (category, tasks) \<Rightarrow>
        (case map_of colors category of
           None \<Rightarrow> caches
         | Some baseColor \<Rightarrow>
             if baseColor = [] then caches
             else foldl (set_task_color baseColor (length tasks)) caches
                    (zip [0..<length tasks] tasks)))"

text \<open>\<open>initializeColorCaches\<close> writes into the four module-level caches; any error inside
  is rethrown as a plain \<open>Error\<close> (the model then gives the error only, not the caches as
  far as they were written).\<close>

definition initializeColorCaches :: "color_caches \<Rightarrow> error + color_caches" where
  "initializeColorCaches caches =
     (case set_category_colors CATEGORY_COLORS caches of
        Inl e \<Rightarrow> Inl PlainError
      | Inr caches' \<Rightarrow> Inr (foldl (set_tasks_of_category CATEGORY_COLORS) caches' TASK_CATEGORIES))"

text \<open>The getters fall back to grey.\<close>

definition getTaskColor :: "color_caches \<Rightarrow> string \<Rightarrow> string" where
  "getTaskColor caches task =
     (case map_of (TASK_COLOR_CACHE caches) task of
        Some c \<Rightarrow> if c \<noteq> [] then c else ''#ccccccCC''
      | None \<Rightarrow> ''#ccccccCC'')"

definition getTaskBorderColor :: "color_caches \<Rightarrow> string \<Rightarrow> string" where
  "getTaskBorderColor caches task =
     (case map_of (TASK_BORDER_COLOR_CACHE caches) task of
        Some c \<Rightarrow> if c \<noteq> [] then c else ''#cccccc''
      | None \<Rightarrow> ''#cccccc'')"

definition getCategoryColor :: "color_caches \<Rightarrow> string \<Rightarrow> string" where
  "getCategoryColor caches category =
     (case map_of (CATEGORY_COLOR_CACHE caches) category of
        Some c \<Rightarrow> if c \<noteq> [] then c else ''#ccccccCC''
      | None \<Rightarrow> ''#ccccccCC'')"

definition getCategoryBorderColor :: "color_caches \<Rightarrow> string \<Rightarrow> string" where
  "getCategoryBorderColor caches category =
     (case map_of (CATEGORY_BORDER_COLOR_CACHE caches) category of
        Some c \<Rightarrow> if c \<noteq> [] then c else ''#cccccc''
      | None \<Rightarrow> ''#cccccc'')"

definition no_caches :: color_caches where
  "no_caches =
     \<lparr>TASK_COLOR_CACHE = [], TASK_BORDER_COLOR_CACHE = [],
      CATEGORY_COLOR_CACHE = [], CATEGORY_BORDER_COLOR_CACHE = []\<rparr>"


subsection \<open>Notions used in the statements on colours\<close>

text \<open>A channel scaled by \<open>(100 + percent) / 100\<close>, rounded and clamped.\<close>

definition scale_channel :: "int \<Rightarrow> int \<Rightarrow> int" where
  "scale_channel r percent =
     min 255 (max 0 (Math_round (of_int r * (100 + of_int percent) / 100)))"

text \<open>The assignments to the task caches that the loop over the categories makes, in
  order.\<close>

definition color_writes :: "(string \<times> string list) list \<Rightarrow> (string \<times> string) list" where
  "color_writes cats =
     concat (map (\<lambda>(category, tasks).
        case map_of CATEGORY_COLORS category of
          None \<Rightarrow> []
        | Some baseColor \<Rightarrow>
            if baseColor = [] then []
            else map (\<lambda>(index, taskName).
                        (taskName, adjustColor baseColor (percentAdjustment (length tasks) index)))
                   (zip [0..<length tasks] tasks)) cats)"

section \<open>The employee dashboard (\<open>src/modules/hr/components/loading-state.js\<close>)\<close>

text \<open>The module-level state that the modelled functions read.\<close>

datatype display_mode = Hours | Cost

datatype level_mode = Category | Task

record dashboard =
  employeesData :: "row list"
  filteredEmployeesData :: "row list"
  globalDisplayMode :: display_mode
  globalLevelMode :: level_mode
  colorCaches :: color_caches

text \<open>An entry of \<open>detailedBreakdown\<close>; the cost is \<open>undefined\<close> in a breakdown that comes
  from \<open>createDetailedBreakdown\<close>.\<close>

record activity =
  act_name :: string
  act_hours :: rat
  act_cost :: "rat option"
  act_type :: string

text \<open>A value of the \<open>Week Range\<close> column as a property key and in a message.\<close>

definition week_key :: "jsfield \<Rightarrow> string" where
  "week_key w = (case w of Text s \<Rightarrow> s | Absent \<Rightarrow> ''undefined'' | Blank \<Rightarrow> ''null'')"

subsection \<open>\<open>updateEmployeeSummary\<close>\<close>

text \<open>What the function writes into the summary card, before formatting.\<close>

record summary =
  sum_totalHours :: rat
  sum_totalCost :: rat
  mostTimeActivity :: string
  mostTimeHours :: rat
  mostTimePercentage :: fixed1
  mostTimeCost :: rat
  weekCount :: nat
  weeklyAverage :: fixed1

text \<open>
  \<open>[...detailedBreakdown].sort((a, b) => b.hours - a.hours)\<close>: \<open>Array.prototype.sort\<close> is
  stable, so the result is the stable sort by descending hours, which \<open>sort_key\<close> is.
  The display mode is part of the state that the function could read.
\<close>

definition updateEmployeeSummary ::
  "dashboard \<Rightarrow> string \<Rightarrow> (string \<times> rat) list \<Rightarrow> activity list \<Rightarrow> error + summary" where
  "updateEmployeeSummary st employeeName totalsByCategory detailedBreakdown =
     (let hourlyRate = getHourlyRate (Text employeeName);
          sumHours = foldl (\<lambda>sum h. sum + h) 0 (map snd totalsByCategory);
          sortedByHours = sort_key (\<lambda>a. - act_hours a) detailedBreakdown;
          most =
            (case sortedByHours of
               [] \<Rightarrow> (''None'', 0, Fixed1 0, 0)
             | topActivity # _ \<Rightarrow>
                 (act_name topActivity,
                  act_hours topActivity,
                  percent_of (act_hours topActivity) sumHours,
                  (case act_cost topActivity of
                     Some c \<Rightarrow> c
                   | None \<Rightarrow> act_hours topActivity * hourlyRate)))
      in case filter_user_includes employeeName (filteredEmployeesData st) of
           Inl err \<Rightarrow> Inl err
         | Inr employeeData \<Rightarrow>
             let uniqueWeeks = uniq (map Week_Range employeeData) in
             Inr \<lparr>sum_totalHours = sumHours,
                  sum_totalCost = sumHours * hourlyRate,
                  mostTimeActivity = fst most,
                  mostTimeHours = fst (snd most),
                  mostTimePercentage = fst (snd (snd most)),
                  mostTimeCost = snd (snd (snd most)),
                  weekCount = length uniqueWeeks,
                  weeklyAverage = ratio_toFixed1 sumHours (of_nat (length uniqueWeeks))\<rparr>)"

subsection \<open>The weekly trend of \<open>initializeEmployeeCharts\<close>\<close>

record dataset =
  ds_label :: string
  ds_data :: "rat list"
  ds_borderColor :: string
  ds_backgroundColor :: string

text \<open>The totals of one week and its entries per category or per activity.\<close>

record week_bucket =
  wk_totalHours :: rat
  wk_totalCost :: rat
  wk_items :: "(string \<times> share) list"

type_synonym weekly = "(string \<times> week_bucket) list"

definition zero_share :: share where
  "zero_share = \<lparr>empHours = 0, empCost = 0\<rparr>"

text \<open>\<open>weekly[week][item].hours += hours\<close> and the three additions that go with it.\<close>

definition add_to_item :: "string \<Rightarrow> string \<Rightarrow> rat \<Rightarrow> rat \<Rightarrow> weekly \<Rightarrow> weekly" where
  "add_to_item week item h c weekly =
     AList.map_entry week
       (\<lambda>wb. \<lparr>wk_totalHours = wk_totalHours wb + h,
               wk_totalCost = wk_totalCost wb + c,
               wk_items =
                 AList.map_entry item
                   (\<lambda>s. \<lparr>empHours = empHours s + h, empCost = empCost s + c\<rparr>) (wk_items wb)\<rparr>)
       weekly"

text \<open>\<open>weekly[week].totalHours += hours\<close> and the same for the cost.\<close>

definition add_to_week :: "string \<Rightarrow> rat \<Rightarrow> rat \<Rightarrow> weekly \<Rightarrow> weekly" where
  "add_to_week week h c weekly =
     AList.map_entry week
       (\<lambda>wb. wb\<lparr>wk_totalHours := wk_totalHours wb + h, wk_totalCost := wk_totalCost wb + c\<rparr>)
       weekly"

text \<open>The reads \<open>weekly[week][item]\<close> and \<open>weekly[week]\<close> of the chart data, for a week and an
  item that have been initialised.\<close>

definition item_of :: "weekly \<Rightarrow> jsfield \<Rightarrow> string \<Rightarrow> share" where
  "item_of weekly week item =
     (case map_of weekly (week_key week) of
        Some wb \<Rightarrow> (case map_of (wk_items wb) item of Some s \<Rightarrow> s | None \<Rightarrow> zero_share)
      | None \<Rightarrow> zero_share)"

definition week_total :: "weekly \<Rightarrow> jsfield \<Rightarrow> rat \<times> rat" where
  "week_total weekly week =
     (case map_of weekly (week_key week) of
        Some wb \<Rightarrow> (wk_totalHours wb, wk_totalCost wb)
      | None \<Rightarrow> (0, 0))"

text \<open>The last dataset: the totals per week.\<close>

definition total_dataset :: "bool \<Rightarrow> weekly \<Rightarrow> jsfield list \<Rightarrow> dataset" where
  "total_dataset displayByCost weekly weeks =
     \<lparr>ds_label = (if displayByCost then ''Total Cost'' else ''Total Hours''),
      ds_data = map (\<lambda>week. if displayByCost then snd (week_total weekly week)
                              else fst (week_total weekly week)) weeks,
      ds_borderColor = ''#FF5733'',
      ds_backgroundColor = ''rgba(255, 87, 51, 0.8)''\<rparr>"

text \<open>The category level: every week starts with an entry for every category; every cell
  with more than 0 hours is added to its category and to the totals of its week.\<close>

definition category_cells :: "(string \<times> string) list" where
  "category_cells = concat (map (\<lambda>(category, tasks). map (\<lambda>task. (category, task)) tasks)
                              TASK_CATEGORIES)"

definition weeklyDataByCategory :: "rat \<Rightarrow> row list \<Rightarrow> jsfield list \<Rightarrow> weekly" where
  "weeklyDataByCategory hourlyRate employeeData weeks =
     (let init =
            foldl (\<lambda>weekly week.
                     AList.update (week_key week)
                       \<lparr>wk_totalHours = 0, wk_totalCost = 0,
                        wk_items = foldl (\<lambda>items category. AList.update category zero_share items)
                                     [] (map fst TASK_CATEGORIES)\<rparr> weekly)
              [] weeks
      in foldl (\<lambda>weekly r.
                  foldl (\<lambda>weekly (category, task).
                           let h = cell_or_0 r task in
                           if h > 0
                           then add_to_item (week_key (Week_Range r)) category h (h * hourlyRate)
                                  weekly
                           else weekly)
                    weekly category_cells)
           init employeeData)"

definition category_datasets ::
  "dashboard \<Rightarrow> rat \<Rightarrow> row list \<Rightarrow> jsfield list \<Rightarrow> dataset list" where
  "category_datasets st hourlyRate employeeData weeks =
     (let weekly = weeklyDataByCategory hourlyRate employeeData weeks;
          categoryTotals =
            map (\<lambda>category.
                   (category,
                    foldl (\<lambda>sum week. sum + empHours (item_of weekly week category)) 0 weeks))
              (map fst TASK_CATEGORIES);
          topCategories =
            map fst (take 3 (sort_key (\<lambda>(_, t). - t)
                               (filter (\<lambda>(_, t). t > 0) categoryTotals)));
          displayByCost = (globalDisplayMode st = Cost)
      in map (\<lambda>category.
                \<lparr>ds_label = category,
                 ds_data = map (\<lambda>week. if displayByCost
                                         then empCost (item_of weekly week category)
                                         else empHours (item_of weekly week category)) weeks,
                 ds_borderColor = getCategoryBorderColor (colorCaches st) category,
                 ds_backgroundColor = getCategoryColor (colorCaches st) category\<rparr>)
           topCategories
         @ [total_dataset displayByCost weekly weeks])"

text \<open>The task level: the first three activities of the breakdown get an entry in every
  week; the other columns of a row only count in the totals of its week.\<close>

definition weeklyDataMap :: "rat \<Rightarrow> string list \<Rightarrow> row list \<Rightarrow> weekly" where
  "weeklyDataMap hourlyRate topNames employeeData =
     foldl (\<lambda>weekly r.
              let week = week_key (Week_Range r);
                  weekly =
                    (case map_of weekly week of
                       None \<Rightarrow>
                         AList.update week
                           \<lparr>wk_totalHours = 0, wk_totalCost = 0,
                            wk_items = foldl (\<lambda>items n. AList.update n zero_share items)
                                         [] topNames\<rparr> weekly
                     | Some _ \<Rightarrow> weekly);
                  weekly =
                    foldl (\<lambda>weekly n.
                             let h = cell_or_0 r n in
                             if h > 0 then add_to_item week n h (h * hourlyRate) weekly
                             else weekly)
                      weekly topNames
              in foldl (\<lambda>weekly key.
                          let h = cell_or_0 r key in
                          if key \<notin> set topNames \<and> h > 0
                          then add_to_week week h (h * hourlyRate) weekly
                          else weekly)
                   weekly (row_keys r))
       [] employeeData"

definition task_datasets ::
  "dashboard \<Rightarrow> rat \<Rightarrow> activity list \<Rightarrow> row list \<Rightarrow> jsfield list \<Rightarrow> dataset list" where
  "task_datasets st hourlyRate detailedBreakdown employeeData weeks =
     (let topActivities = take 3 detailedBreakdown;
          weekly = weeklyDataMap hourlyRate (map act_name topActivities) employeeData;
          displayByCost = (globalDisplayMode st = Cost)
      in map (\<lambda>a.
                \<lparr>ds_label = act_name a,
                 ds_data = map (\<lambda>week. if displayByCost
                                         then empCost (item_of weekly week (act_name a))
                                         else empHours (item_of weekly week (act_name a))) weeks,
                 ds_borderColor = getTaskBorderColor (colorCaches st) (act_name a),
                 ds_backgroundColor = getTaskColor (colorCaches st) (act_name a)\<rparr>)
           topActivities
         @ [total_dataset displayByCost weekly weeks])"

text \<open>What the line chart area shows: the chart with its datasets and week labels, or the
  message that there is not enough data.\<close>

datatype trend_view = TimeLine "dataset list" "jsfield list" | No_Trend string

definition weekly_trend ::
  "host \<Rightarrow> dashboard \<Rightarrow> string \<Rightarrow> activity list \<Rightarrow> row list \<Rightarrow> trend_view" where
  "weekly_trend h st employeeName detailedBreakdown employeeData =
     (let hourlyRate = getHourlyRate (Text employeeName);
          uniqueWeeks = uniq (map Week_Range employeeData)
      in if length uniqueWeeks > 1 then
           let weeks = sort_by_Date h uniqueWeeks;
               datasets =
                 (if globalLevelMode st = Category
                  then category_datasets st hourlyRate employeeData weeks
                  else task_datasets st hourlyRate detailedBreakdown employeeData weeks)
           in TimeLine datasets weeks
         else if length uniqueWeeks = 1 then
           No_Trend (''Weekly trend data not available - '' @ employeeName @
                     '' only has data for one week ('' @ week_key (uniqueWeeks ! 0) @ '')'')
         else No_Trend ''No data available for the selected date range.'')"

subsection \<open>\<open>initializeEmployeeCharts\<close>\<close>





text \<open>A dashboard state for the examples: two rows of Kyle, of one week or of two.\<close>

definition kyle_row2 :: row where
  "kyle_row2 =
     \<lparr>User = Text ''kyle@x.com'',
      Week_Range = Text (''Mar 17 '' @ en_dash @ '' Mar 22 (2025)''),
      Date = Absent,
      cells = [(''BD - Research'', Some 3), (''Admin'', Some 1)]\<rparr>"

definition example_state :: "row list \<Rightarrow> dashboard" where
  "example_state rows =
     \<lparr>employeesData = rows, filteredEmployeesData = rows, globalDisplayMode = Hours,
      globalLevelMode = Category, colorCaches = no_caches\<rparr>"

text \<open>A breakdown whose entry of highest cost is not the first entry of highest hours.\<close>

definition example_breakdown :: "activity list" where
  "example_breakdown =
     [\<lparr>act_name = ''A'', act_hours = 2, act_cost = Some 40, act_type = []\<rparr>,
      \<lparr>act_name = ''B'', act_hours = 5, act_cost = Some 10, act_type = []\<rparr>,
      \<lparr>act_name = ''C'', act_hours = 5, act_cost = Some 300, act_type = []\<rparr>]"

section \<open>Properties\<close>




subsection \<open>Per-task totals\<close>












lemma TASK_CATEGORIES_distinct: "distinct (concat (map snd TASK_CATEGORIES))"
  by (simp add: TASK_CATEGORIES_def)
















subsection \<open>Sums over association lists\<close>










lemma add_rows_TypeError:
  "\<exists>r \<in> set rows. \<forall>u. User r \<noteq> Text u \<Longrightarrow> add_rows ts d rows = Inl TypeError"
proof (induction rows arbitrary: d)
  case Nil
  then show ?case by simp
next
  case (Cons r rows)
  show ?case
  proof (cases "User r")
    case (Text u)
    with Cons.prems have "\<exists>r \<in> set rows. \<forall>u. User r \<noteq> Text u" by auto
    from Cons.IH [OF this] Text show ?thesis by (simp add: add_row_def Let_def)
  qed (simp_all add: add_row_def)
qed


subsection \<open>The claims on aggregation\<close>



text \<open>
  Claim C4, as amended. \<open>calculateDetailedTaskData\<close> does not check the \<open>User\<close> field.
  On a row set with a row whose \<open>User\<close> is absent the call \<open>row.User.toLowerCase()\<close>
  throws, so the aggregation fails with a \<open>TypeError\<close>.
\<close>

theorem calculateDetailedTaskData_absent_User:
  "\<exists>r \<in> set employeeData. User r = Absent \<Longrightarrow>
   calculateDetailedTaskData employeeData taskCategories = Inl TypeError"
proof -
  assume "\<exists>r \<in> set employeeData. User r = Absent"
  then obtain r where r: "r \<in> set employeeData" and "User r = Absent" by blast
  then have "\<forall>u. User r \<noteq> Text u" by simp
  with r have "\<exists>r \<in> set employeeData. \<forall>u. User r \<noteq> Text u" by blast
  then show ?thesis
    unfolding calculateDetailedTaskData_def by (rule add_rows_TypeError)
qed

theorem calculateDetailedTaskData_absent_User_witness:
  "calculateDetailedTaskData [kyle_row, kyle_row\<lparr>User := Absent\<rparr>] [''BD - Research''] =
     Inl TypeError"
proof -
  have "\<exists>r \<in> set [kyle_row, kyle_row\<lparr>User := Absent\<rparr>]. User r = Absent" by simp
  then show ?thesis by (rule calculateDetailedTaskData_absent_User)
qed

text \<open>The claim as stated fails: the error of a row without \<open>User\<close> is not a
  \<open>ValidationError\<close>.\<close>

theorem calculateDetailedTaskData_not_ValidationError:
  "calculateDetailedTaskData [kyle_row\<lparr>User := Absent\<rparr>] [''BD - Research''] = Inl TypeError \<and>
   calculateDetailedTaskData [kyle_row\<lparr>User := Absent\<rparr>] [''BD - Research''] \<noteq> Inl ValidationError"
  by (simp add: calculateDetailedTaskData_def add_row_def kyle_row_def)



subsection \<open>Week ranges and filtering\<close>

lemma parseStartDateFromWeekRange_no_match:
  "match_month_day s = None \<Longrightarrow> parseStartDateFromWeekRange h (Text s) = Date_ms 0"
  by (simp add: parseStartDateFromWeekRange_def)

lemma parseStartDateFromWeekRange_not_string:
  "parseStartDateFromWeekRange h Absent = Date_ms 0"
  "parseStartDateFromWeekRange h Blank = Date_ms 0"
  by (simp_all add: parseStartDateFromWeekRange_def)

text \<open>
  Claim C5. A label that has letters, white space and digits in a row, but whose word is
  not one of the twelve month abbreviations, is not parseable. On such a label the
  regular expression matches, the month table gives \<open>undefined\<close>, and the function returns
  an invalid date instead of the epoch: here for the label \<open>Week 12 (2025)\<close>, whatever
  the host.
\<close>

theorem parseStartDateFromWeekRange_unknown_month:
  "parseStartDateFromWeekRange h (Text ''Week 12 (2025)'') = Invalid_Date \<and>
   parseStartDateFromWeekRange h (Text ''Week 12 (2025)'') \<noteq> Date_ms 0"
  by (simp add: parseStartDateFromWeekRange_def match_month_day_here_def is_alpha_def
      is_space_def is_digit_def monthMap_def new_Date_def Let_def)



subsection \<open>Pie data\<close>







subsection \<open>Colours\<close>

lemma hex_list:
  "is_hex c \<Longrightarrow> list_all P ''0123456789abcdefABCDEF'' \<Longrightarrow> P c"
  by (simp only: is_hex_def list_all_iff)

lemma is_hex_plain:
  assumes "is_hex c"
  shows "\<not> is_space c \<and> c \<noteq> CHR ''-'' \<and> c \<noteq> CHR ''+'' \<and> c \<noteq> CHR ''x'' \<and> c \<noteq> CHR ''X''"
proof -
  have "list_all (\<lambda>c. \<not> is_space c \<and> c \<noteq> CHR ''-'' \<and> c \<noteq> CHR ''+'' \<and> c \<noteq> CHR ''x'' \<and> c \<noteq> CHR ''X'')
          ''0123456789abcdefABCDEF''"
    by (simp add: is_space_def)
  with assms show ?thesis by (rule hex_list)
qed

lemma hex_val_range:
  assumes "is_hex c"
  shows "0 \<le> hex_val c \<and> hex_val c < 16"
proof -
  have "list_all (\<lambda>c. 0 \<le> hex_val c \<and> hex_val c < 16) ''0123456789abcdefABCDEF''"
    by (simp add: hex_val_def)
  with assms show ?thesis by (rule hex_list)
qed

lemma hex_digit_hex_val:
  assumes "is_hex c"
  shows "hex_digit (hex_val c) = toLowerCase_char c"
proof -
  have "list_all (\<lambda>c. hex_digit (hex_val c) = toLowerCase_char c) ''0123456789abcdefABCDEF''"
    by (simp add: hex_val_def hex_digit_def toLowerCase_char_def)
  with assms show ?thesis by (rule hex_list)
qed

lemma parseInt16_pair:
  assumes "is_hex a" "is_hex b"
  shows "parseInt16 [a, b] = Some (16 * hex_val a + hex_val b)"
  using is_hex_plain [OF assms(1)] is_hex_plain [OF assms(2)] assms
  by (simp add: parseInt16_def Let_def)

lemma Math_round_percent: "Math_round (of_int n / 100) = (n + 50) div 100"
proof -
  have "(of_int n / 100 + 1 / 2 :: rat) = of_int (n + 50) / of_int 100" by simp
  then have "Math_round (of_int n / 100) = \<lfloor>(of_int (n + 50) / of_int 100 :: rat)\<rfloor>"
    by (simp only: Math_round_def)
  then show ?thesis by (simp only: floor_divide_of_int_eq)
qed

lemma adjust_channel_Some: "adjust_channel (Some r) percent = Some (scale_channel r percent)"
  by (simp add: adjust_channel_def scale_channel_def)

lemma scale_channel_range: "0 \<le> scale_channel r percent \<and> scale_channel r percent \<le> 255"
  by (simp add: scale_channel_def)

lemma scale_channel_0:
  assumes "0 \<le> r" "r \<le> 255"
  shows "scale_channel r 0 = r"
proof -
  have "(of_int r * (100 + of_int 0) / 100 :: rat) = of_int (r * 100) / 100" by simp
  then have "Math_round (of_int r * (100 + of_int 0) / 100) = (r * 100 + 50) div 100"
    by (simp only: Math_round_percent)
  also have "\<dots> = r" by simp
  finally show ?thesis using assms by (simp add: scale_channel_def)
qed

lemma hex2_pair:
  assumes "is_hex a" "is_hex b"
  shows "hex2 (Some (16 * hex_val a + hex_val b)) = [toLowerCase_char a, toLowerCase_char b]"
proof -
  from hex_val_range [OF assms(2)]
  have "(16 * hex_val a + hex_val b) div 16 = hex_val a"
    and "(16 * hex_val a + hex_val b) mod 16 = hex_val b"
    by simp_all
  then show ?thesis
    by (simp add: hex2_def hex_digit_hex_val assms)
qed

lemma adjustColor_hex:
  assumes "list_all is_hex [a, b, c, d, e, f]"
  shows "adjustColor (''#'' @ [a, b, c, d, e, f]) percent =
           ''#'' @ hex2 (Some (scale_channel (16 * hex_val a + hex_val b) percent))
                @ hex2 (Some (scale_channel (16 * hex_val c + hex_val d) percent))
                @ hex2 (Some (scale_channel (16 * hex_val e + hex_val f) percent))"
  using assms by (simp add: adjustColor_def parseInt16_pair adjust_channel_Some)

lemma adjustColor_0:
  assumes "list_all is_hex [a, b, c, d, e, f]"
  shows "adjustColor (''#'' @ [a, b, c, d, e, f]) 0 = ''#'' @ toLowerCase [a, b, c, d, e, f]"
proof -
  have r: "scale_channel (16 * hex_val x + hex_val y) 0 = 16 * hex_val x + hex_val y"
    if "is_hex x" "is_hex y" for x y
    using hex_val_range [OF that(1)] hex_val_range [OF that(2)]
    by (intro scale_channel_0) simp_all
  from assms have h: "is_hex a" "is_hex b" "is_hex c" "is_hex d" "is_hex e" "is_hex f"
    by simp_all
  show ?thesis
    unfolding adjustColor_hex [OF assms]
    by (simp add: r h hex2_pair toLowerCase_def)
qed

lemma adjustColor_nonempty: "adjustColor hex percent \<noteq> []"
  by (simp add: adjustColor_def Let_def)

text \<open>The task caches after the loop over the categories: a fold of assignments.\<close>

lemma task_caches_inner:
  "TASK_BORDER_COLOR_CACHE (foldl (set_task_color b n) c its) =
     foldl (\<lambda>m (k, v). AList.update k v m) (TASK_BORDER_COLOR_CACHE c)
       (map (\<lambda>(index, taskName). (taskName, adjustColor b (percentAdjustment n index))) its) \<and>
   TASK_COLOR_CACHE (foldl (set_task_color b n) c its) =
     foldl (\<lambda>m (k, v). AList.update k (v @ ''CC'') m) (TASK_COLOR_CACHE c)
       (map (\<lambda>(index, taskName). (taskName, adjustColor b (percentAdjustment n index))) its)"
  by (induction its arbitrary: c) (auto simp: set_task_color_def Let_def)

lemma task_caches_step:
  "TASK_BORDER_COLOR_CACHE (set_tasks_of_category CATEGORY_COLORS c entry) =
     foldl (\<lambda>m (k, v). AList.update k v m) (TASK_BORDER_COLOR_CACHE c) (color_writes [entry]) \<and>
   TASK_COLOR_CACHE (set_tasks_of_category CATEGORY_COLORS c entry) =
     foldl (\<lambda>m (k, v). AList.update k (v @ ''CC'') m) (TASK_COLOR_CACHE c) (color_writes [entry])"
  by (cases entry)
    (simp add: set_tasks_of_category_def color_writes_def task_caches_inner split: option.splits)

lemma task_caches_fold:
  "TASK_BORDER_COLOR_CACHE (foldl (set_tasks_of_category CATEGORY_COLORS) c cats) =
     foldl (\<lambda>m (k, v). AList.update k v m) (TASK_BORDER_COLOR_CACHE c) (color_writes cats) \<and>
   TASK_COLOR_CACHE (foldl (set_tasks_of_category CATEGORY_COLORS) c cats) =
     foldl (\<lambda>m (k, v). AList.update k (v @ ''CC'') m) (TASK_COLOR_CACHE c) (color_writes cats)"
proof (induction cats arbitrary: c)
  case Nil
  then show ?case by (simp add: color_writes_def)
next
  case (Cons entry cats)
  have w: "color_writes (entry # cats) = color_writes [entry] @ color_writes cats"
    by (simp add: color_writes_def)
  show ?case
    by (simp only: foldl_Cons Cons.IH task_caches_step w foldl_append simp_thms)
qed

lemma map_of_foldl_update_other:
  "k \<notin> fst ` set kvs \<Longrightarrow>
   map_of (foldl (\<lambda>m (k, v). AList.update k (g v) m) m kvs) k = map_of m k"
  by (induction kvs arbitrary: m) (auto simp: update_conv')

lemma map_of_foldl_update:
  "distinct (map fst kvs) \<Longrightarrow> (k, v) \<in> set kvs \<Longrightarrow>
   map_of (foldl (\<lambda>m (k, v). AList.update k (g v) m) m kvs) k = Some (g v)"
proof (induction kvs arbitrary: m)
  case Nil
  then show ?case by simp
next
  case (Cons p kvs)
  show ?case
  proof (cases "p = (k, v)")
    case True
    with Cons.prems have "k \<notin> fst ` set kvs" by auto
    with True show ?thesis by (simp add: map_of_foldl_update_other update_conv')
  next
    case False
    with Cons show ?thesis by auto
  qed
qed

lemma color_writes_keys:
  "\<forall>(category, tasks) \<in> set cats. \<exists>b. map_of CATEGORY_COLORS category = Some b \<and> b \<noteq> [] \<Longrightarrow>
   map fst (color_writes cats) = concat (map snd cats)"
proof (induction cats)
  case Nil
  then show ?case by (simp add: color_writes_def)
next
  case (Cons entry cats)
  obtain category tasks where e: "entry = (category, tasks)" by (cases entry)
  with Cons.prems obtain b where b: "map_of CATEGORY_COLORS category = Some b" "b \<noteq> []"
    by auto
  have "map fst (map (\<lambda>(index, taskName). (taskName, adjustColor b (percentAdjustment (length tasks) index)))
           (zip [0..<length tasks] tasks)) = map snd (zip [0..<length tasks] tasks)"
    by (simp add: split_def comp_def)
  also have "\<dots> = tasks" by simp
  finally have "map fst (color_writes [entry]) = tasks"
    by (simp add: color_writes_def e b)
  moreover have "color_writes (entry # cats) = color_writes [entry] @ color_writes cats"
    by (simp add: color_writes_def)
  ultimately show ?case using Cons e by simp
qed

lemma category_has_color:
  "\<forall>(category, tasks) \<in> set TASK_CATEGORIES.
     \<exists>b. map_of CATEGORY_COLORS category = Some b \<and> b \<noteq> []"
  by (simp add: TASK_CATEGORIES_def CATEGORY_COLORS_def)

lemma color_writes_Cons:
  "color_writes (entry # cats) = color_writes [entry] @ color_writes cats"
  by (simp add: color_writes_def)

lemma color_writes_single:
  "map_of CATEGORY_COLORS category = Some b \<Longrightarrow> b \<noteq> [] \<Longrightarrow>
   color_writes [(category, tasks)] =
     map (\<lambda>(index, taskName). (taskName, adjustColor b (percentAdjustment (length tasks) index)))
       (zip [0..<length tasks] tasks)"
  by (simp add: color_writes_def)

lemma color_writes_mem:
  assumes "(category, tasks) \<in> set cats" "map_of CATEGORY_COLORS category = Some b" "b \<noteq> []"
    "index < length tasks"
  shows "(tasks ! index, adjustColor b (percentAdjustment (length tasks) index))
           \<in> set (color_writes cats)"
proof -
  have "(index, tasks ! index) \<in> set (zip [0..<length tasks] tasks)"
    using assms(4) by (auto simp: in_set_zip intro!: exI [of _ index])
  then have "(tasks ! index, adjustColor b (percentAdjustment (length tasks) index))
      \<in> set (color_writes [(category, tasks)])"
    unfolding color_writes_single [OF assms(2,3)] by force
  moreover have "set (color_writes [entry]) \<subseteq> set (color_writes cats)"
    if "entry \<in> set cats" for entry
    using that
  proof (induction cats)
    case Nil
    then show ?case by simp
  next
    case (Cons e cats)
    then show ?case by (subst color_writes_Cons) auto
  qed
  ultimately show ?thesis using assms(1) by blast
qed

lemma set_category_colors_returns:
  "\<exists>c'. set_category_colors CATEGORY_COLORS c = Inr c'"
  by (simp add: CATEGORY_COLORS_def)

lemma percentAdjustment_formula:
  "index < n \<Longrightarrow> percentAdjustment n index = (int index - int (n div 2)) * 15"
  by (auto simp: percentAdjustment_def Let_def)

text \<open>
  Claim C9. After \<open>initializeColorCaches\<close>, whatever the caches held before, the task at
  index \<open>i\<close> of a category of \<open>TASK_CATEGORIES\<close> with \<open>N\<close> tasks has as border colour the
  category's base colour adjusted by \<open>(i - N div 2) * 15\<close> percent, and as fill colour
  the same with the suffix \<open>CC\<close>; for a category with a single task that is an
  adjustment by 0 percent. On a colour \<open>#RRGGBB\<close> of six hexadecimal digits,
  \<open>adjustColor\<close> scales each channel by \<open>(100 + percent) / 100\<close>, rounds, clamps the result
  to the range from 0 to 255 and writes it as two lower-case hexadecimal digits; an
  adjustment by 0 percent leaves every channel as it is, so the result is the base colour
  (with its digits in lower case).
\<close>

theorem task_color_assignment:
  "((category, tasks) \<in> set TASK_CATEGORIES \<and> index < length tasks \<longrightarrow>
      (\<exists>caches' baseColor.
         initializeColorCaches caches = Inr caches' \<and>
         map_of CATEGORY_COLORS category = Some baseColor \<and>
         getTaskBorderColor caches' (tasks ! index) =
           adjustColor baseColor ((int index - int (length tasks div 2)) * 15) \<and>
         getTaskColor caches' (tasks ! index) =
           adjustColor baseColor ((int index - int (length tasks div 2)) * 15) @ ''CC'' \<and>
         (length tasks = 1 \<longrightarrow>
            getTaskBorderColor caches' (tasks ! index) = adjustColor baseColor 0))) \<and>
   (list_all is_hex [a, b, c, d, e, f] \<longrightarrow>
      adjustColor (''#'' @ [a, b, c, d, e, f]) percent =
        ''#'' @ hex2 (Some (scale_channel (16 * hex_val a + hex_val b) percent))
             @ hex2 (Some (scale_channel (16 * hex_val c + hex_val d) percent))
             @ hex2 (Some (scale_channel (16 * hex_val e + hex_val f) percent)) \<and>
      adjustColor (''#'' @ [a, b, c, d, e, f]) 0 = ''#'' @ toLowerCase [a, b, c, d, e, f]) \<and>
   0 \<le> scale_channel r percent \<and> scale_channel r percent \<le> 255"
proof -
  have first: "\<exists>caches' baseColor.
         initializeColorCaches caches = Inr caches' \<and>
         map_of CATEGORY_COLORS category = Some baseColor \<and>
         getTaskBorderColor caches' (tasks ! index) =
           adjustColor baseColor ((int index - int (length tasks div 2)) * 15) \<and>
         getTaskColor caches' (tasks ! index) =
           adjustColor baseColor ((int index - int (length tasks div 2)) * 15) @ ''CC'' \<and>
         (length tasks = 1 \<longrightarrow>
            getTaskBorderColor caches' (tasks ! index) = adjustColor baseColor 0)"
    if mem: "(category, tasks) \<in> set TASK_CATEGORIES" and idx: "index < length tasks"
  proof -
    from set_category_colors_returns obtain c1
      where c1: "set_category_colors CATEGORY_COLORS caches = Inr c1" by blast
    let ?final = "foldl (set_tasks_of_category CATEGORY_COLORS) c1 TASK_CATEGORIES"
    have init: "initializeColorCaches caches = Inr ?final"
      by (simp add: initializeColorCaches_def c1)
    from category_has_color mem obtain baseColor
      where b: "map_of CATEGORY_COLORS category = Some baseColor" "baseColor \<noteq> []" by auto
    let ?p = "percentAdjustment (length tasks) index"
    have keys: "distinct (map fst (color_writes TASK_CATEGORIES))"
      using color_writes_keys [OF category_has_color] TASK_CATEGORIES_distinct by simp
    note w = color_writes_mem [OF mem b idx]
    have border: "map_of (TASK_BORDER_COLOR_CACHE ?final) (tasks ! index) = Some (adjustColor baseColor ?p)"
      using map_of_foldl_update [OF keys w, of "\<lambda>v. v"]
      by (simp add: task_caches_fold)
    have fill: "map_of (TASK_COLOR_CACHE ?final) (tasks ! index) = Some (adjustColor baseColor ?p @ ''CC'')"
      using map_of_foldl_update [OF keys w, of "\<lambda>v. v @ ''CC''"]
      by (simp add: task_caches_fold)
    have p: "?p = (int index - int (length tasks div 2)) * 15"
      using idx by (rule percentAdjustment_formula)
    have p1: "length tasks = 1 \<Longrightarrow> ?p = 0"
      by (simp add: percentAdjustment_def)
    from init b border fill p p1 show ?thesis
      by (auto simp: getTaskBorderColor_def getTaskColor_def adjustColor_nonempty)
  qed
  from first adjustColor_hex adjustColor_0 scale_channel_range show ?thesis by blast
qed

theorem task_color_assignment_witness:
  "\<exists>caches'. initializeColorCaches no_caches = Inr caches' \<and>
     getTaskBorderColor caches' ''BD - Research'' = ''#357b38'' \<and>
     getTaskColor caches' ''BD - Research'' = ''#357b38CC'' \<and>
     adjustColor ''#E91E63'' 0 = ''#e91e63''"
proof -
  let ?tasks = "[''BD - Research'', ''BD - Emailing'', ''BD - Calls'', ''BD - Internal Call'']"
  have mem: "(''Business Development'', ?tasks) \<in> set TASK_CATEGORIES \<and> 0 < length ?tasks"
    by (simp add: TASK_CATEGORIES_def)
  have b: "map_of CATEGORY_COLORS ''Business Development'' = Some ''#4CAF50''"
    by (simp add: CATEGORY_COLORS_def)
  have v: "adjustColor ''#4CAF50'' (- 30) = ''#357b38''"
    by code_simp
  have z: "adjustColor ''#E91E63'' 0 = ''#e91e63''"
    by code_simp
  from task_color_assignment
      [of "''Business Development''" ?tasks 0 no_caches "CHR ''E''" "CHR ''9''" "CHR ''1''"
        "CHR ''E''" "CHR ''6''" "CHR ''3''" 0 0] mem
  obtain caches' baseColor where
    "initializeColorCaches no_caches = Inr caches'"
    "map_of CATEGORY_COLORS ''Business Development'' = Some baseColor"
    "getTaskBorderColor caches' (?tasks ! 0) = adjustColor baseColor ((int 0 - int (length ?tasks div 2)) * 15)"
    "getTaskColor caches' (?tasks ! 0) = adjustColor baseColor ((int 0 - int (length ?tasks div 2)) * 15) @ ''CC''"
    by blast
  with b v z show ?thesis by simp
qed

subsection \<open>The employee dashboard\<close>

lemma hd_insort_key:
  "hd (insort_key f x ys) = (if ys = [] \<or> f x \<le> f (hd ys) then x else hd ys)"
  by (cases ys) auto

lemma sort_key_nonempty: "xs \<noteq> [] \<Longrightarrow> sort_key f xs \<noteq> []"
  by (metis length_0_conv length_sort)

lemma hd_sort_key_first_min:
  fixes f :: "'a \<Rightarrow> 'b::linorder"
  shows "xs \<noteq> [] \<Longrightarrow>
    \<exists>pre post. xs = pre @ hd (sort_key f xs) # post \<and>
      (\<forall>a \<in> set pre. f (hd (sort_key f xs)) < f a) \<and>
      (\<forall>a \<in> set post. f (hd (sort_key f xs)) \<le> f a)"
proof (induction xs)
  case Nil
  then show ?case by simp
next
  case (Cons x xs)
  show ?case
  proof (cases "xs = []")
    case True
    then show ?thesis by (intro exI [of _ "[]"]) simp
  next
    case False
    let ?t = "hd (sort_key f xs)"
    from Cons.IH [OF False] obtain pre post where
      xs: "xs = pre @ ?t # post" and pre: "\<forall>a \<in> set pre. f ?t < f a"
      and post: "\<forall>a \<in> set post. f ?t \<le> f a"
      by blast
    have ne: "sort_key f xs \<noteq> []" using False by (rule sort_key_nonempty)
    have hd: "hd (sort_key f (x # xs)) = (if f x \<le> f ?t then x else ?t)"
      using ne by (simp add: hd_insort_key)
    show ?thesis
    proof (cases "f x \<le> f ?t")
      case True
      have "\<forall>a \<in> set xs. f x \<le> f a"
      proof
        fix a assume "a \<in> set xs"
        then have "a \<in> set pre \<or> a = ?t \<or> a \<in> set post" by (subst (asm) xs) auto
        with pre post have "f ?t \<le> f a" by auto
        with True show "f x \<le> f a" by simp
      qed
      with True hd have "x # xs = [] @ hd (sort_key f (x # xs)) # xs \<and>
          (\<forall>a \<in> set []. f (hd (sort_key f (x # xs))) < f a) \<and>
          (\<forall>a \<in> set xs. f (hd (sort_key f (x # xs))) \<le> f a)"
        by simp
      then show ?thesis by blast
    next
      case False
      with hd have h: "hd (sort_key f (x # xs)) = ?t" by simp
      have "x # xs = (x # pre) @ ?t # post" using xs by simp
      moreover have "\<forall>a \<in> set (x # pre). f ?t < f a" using pre False by auto
      ultimately show ?thesis unfolding h using post by blast
    qed
  qed
qed

lemma filter_user_includes_returns:
  "\<forall>r \<in> set rows. \<exists>u. User r = Text u \<Longrightarrow>
   \<exists>sel. filter_user_includes needle rows = Inr sel \<and> set sel \<subseteq> set rows"
proof (induction rows)
  case Nil
  then show ?case by simp
next
  case (Cons r rows)
  then obtain u where u: "User r = Text u" by auto
  from Cons obtain sel where "filter_user_includes needle rows = Inr sel" "set sel \<subseteq> set rows"
    by auto
  with u show ?case by auto
qed

text \<open>
  Claim C1. For a non-empty breakdown, on a state whose filtered rows all have a string
  as \<open>User\<close>, \<open>updateEmployeeSummary\<close> returns, and the activity it reports is the entry
  \<open>top\<close> with the greatest hours, the first one of them in the order of the breakdown:
  every entry before it has fewer hours and no entry after it has more. The reported
  hours are those of \<open>top\<close>, and the reported cost is the cost of \<open>top\<close> (its hours times
  the employee's rate when the entry has no cost). The display mode has no part in it:
  the summary is the same for every mode.
\<close>

theorem most_time_activity_by_hours:
  assumes "detailedBreakdown \<noteq> []"
    and "\<forall>r \<in> set (filteredEmployeesData st). \<exists>u. User r = Text u"
  shows "\<exists>s before top after.
           updateEmployeeSummary (st\<lparr>globalDisplayMode := mode\<rparr>) employeeName totalsByCategory
             detailedBreakdown = Inr s \<and>
           updateEmployeeSummary st employeeName totalsByCategory detailedBreakdown = Inr s \<and>
           detailedBreakdown = before @ top # after \<and>
           (\<forall>a \<in> set before. act_hours a < act_hours top) \<and>
           (\<forall>a \<in> set after. act_hours a \<le> act_hours top) \<and>
           mostTimeActivity s = act_name top \<and>
           mostTimeHours s = act_hours top \<and>
           mostTimeCost s =
             (case act_cost top of
                Some c \<Rightarrow> c
              | None \<Rightarrow> act_hours top * getHourlyRate (Text employeeName))"
proof -
  obtain top rest where sorted: "sort_key (\<lambda>a. - act_hours a) detailedBreakdown = top # rest"
    using sort_key_nonempty [OF assms(1)] by (meson list.exhaust)
  then have top: "hd (sort_key (\<lambda>a. - act_hours a) detailedBreakdown) = top" by simp
  from hd_sort_key_first_min [OF assms(1), of "\<lambda>a. - act_hours a"]
  obtain before after where split: "detailedBreakdown = before @ top # after"
    and b: "\<forall>a \<in> set before. act_hours a < act_hours top"
    and a: "\<forall>a \<in> set after. act_hours a \<le> act_hours top"
    unfolding top by auto
  from filter_user_includes_returns [OF assms(2)] obtain sel
    where sel: "filter_user_includes employeeName (filteredEmployeesData st) = Inr sel"
    by blast
  define sumHours where "sumHours = foldl (\<lambda>sum h. sum + h) 0 (map snd totalsByCategory)"
  define s where "s =
     \<lparr>sum_totalHours = sumHours,
      sum_totalCost = sumHours * getHourlyRate (Text employeeName),
      mostTimeActivity = act_name top,
      mostTimeHours = act_hours top,
      mostTimePercentage = percent_of (act_hours top) sumHours,
      mostTimeCost =
        (case act_cost top of
           Some c \<Rightarrow> c
         | None \<Rightarrow> act_hours top * getHourlyRate (Text employeeName)),
      weekCount = length (uniq (map Week_Range sel)),
      weeklyAverage = ratio_toFixed1 sumHours (of_nat (length (uniq (map Week_Range sel))))\<rparr>"
  have r: "updateEmployeeSummary st' employeeName totalsByCategory detailedBreakdown = Inr s"
    if "filteredEmployeesData st' = filteredEmployeesData st" for st'
    by (simp add: updateEmployeeSummary_def Let_def that sel sorted s_def sumHours_def)
  have "updateEmployeeSummary (st\<lparr>globalDisplayMode := mode\<rparr>) employeeName totalsByCategory
           detailedBreakdown = Inr s"
    by (rule r) simp
  moreover have "updateEmployeeSummary st employeeName totalsByCategory detailedBreakdown = Inr s"
    by (rule r) simp
  moreover have "mostTimeActivity s = act_name top" "mostTimeHours s = act_hours top"
    "mostTimeCost s =
      (case act_cost top of
         Some c \<Rightarrow> c
       | None \<Rightarrow> act_hours top * getHourlyRate (Text employeeName))"
    by (simp_all add: s_def)
  ultimately show ?thesis using split b a by blast
qed

text \<open>In cost mode, with two entries of 5 hours, the first of them is reported with its
  own cost of 10, not the entry whose cost of 300 is the highest.\<close>

theorem most_time_activity_by_hours_witness:
  "\<exists>s. updateEmployeeSummary ((example_state [kyle_row])\<lparr>globalDisplayMode := Cost\<rparr>) ''kyle''
          [(''A'', 2), (''B'', 5), (''C'', 5)] example_breakdown = Inr s \<and>
       mostTimeActivity s = ''B'' \<and> mostTimeHours s = 5 \<and> mostTimeCost s = 10"
proof -
  have h1: "example_breakdown \<noteq> []" by (simp add: example_breakdown_def)
  have h2: "\<forall>r \<in> set (filteredEmployeesData (example_state [kyle_row])). \<exists>u. User r = Text u"
    by (simp add: example_state_def kyle_row_def)
  from most_time_activity_by_hours [OF h1 h2, of Cost "''kyle''" "[(''A'', 2), (''B'', 5), (''C'', 5)]"]
  obtain s where s: "updateEmployeeSummary ((example_state [kyle_row])\<lparr>globalDisplayMode := Cost\<rparr>)
      ''kyle'' [(''A'', 2), (''B'', 5), (''C'', 5)] example_breakdown = Inr s"
    by blast
  have "sort_key (\<lambda>a. - act_hours a) example_breakdown =
          [\<lparr>act_name = ''B'', act_hours = 5, act_cost = Some 10, act_type = []\<rparr>,
           \<lparr>act_name = ''C'', act_hours = 5, act_cost = Some 300, act_type = []\<rparr>,
           \<lparr>act_name = ''A'', act_hours = 2, act_cost = Some 40, act_type = []\<rparr>]"
    by (simp add: example_breakdown_def)
  with s have "mostTimeActivity s = ''B'' \<and> mostTimeHours s = 5 \<and> mostTimeCost s = 10"
    by (auto simp: updateEmployeeSummary_def Let_def split: sum.splits)
  with s show ?thesis by blast
qed


lemma uniq_acc:
  "distinct acc \<Longrightarrow>
   distinct (foldl (\<lambda>acc x. if x \<in> set acc then acc else acc @ [x]) acc xs) \<and>
   set (foldl (\<lambda>acc x. if x \<in> set acc then acc else acc @ [x]) acc xs) = set acc \<union> set xs"
  by (induction xs arbitrary: acc) auto

lemma distinct_uniq: "distinct (uniq xs)"
  using uniq_acc [of "[]" xs] by (simp add: uniq_def)

lemma getTaskCategories_distinct: "distinct (getTaskCategories data)"
  by (simp add: getTaskCategories_def row_keys_def distinct_uniq split: list.splits)

lemma length_uniq: "length (uniq xs) = card (set xs)"
proof -
  from uniq_acc [of "[]" xs] have "distinct (uniq xs)" "set (uniq xs) = set xs"
    by (simp_all add: uniq_def)
  with distinct_card [of "uniq xs"] show ?thesis by simp
qed




lemma weekly_trend_two_weeks:
  assumes "2 \<le> card (Week_Range ` set employeeData)"
  shows "\<exists>datasets.
           weekly_trend h st employeeName detailedBreakdown employeeData =
             TimeLine datasets (sort_by_Date h (uniq (map Week_Range employeeData))) \<and>
           (\<forall>ds \<in> set datasets.
              length (ds_data ds) =
                length (sort_by_Date h (uniq (map Week_Range employeeData))))"
  using assms
  by (auto simp: weekly_trend_def Let_def length_uniq category_datasets_def task_datasets_def
      total_dataset_def)



end
